theory Spec2Isabelle
  imports Complex_Main
begin

section \<open>Values, exceptions and the outside world\<close>

text \<open>
  The script \<^verbatim>\<open>sheet_drive.py\<close> is glue around a credential library, an API client
  library, the local file system and two remote services. None of these is part of the
  script, so each of them is a parameter of the model (the record \<open>env\<close> below); what the
  script does with them is translated line by line. Every function of the script takes
  the world and returns its result together with the new world; a raised exception is
  the left summand of the result.
\<close>

text \<open>Python objects, as far as the script handles them.\<close>

datatype pyobj =
    PyNone
  | PyBool bool
  | PyInt int
  | PyStr string
  | PyList "pyobj list"
  | PyDict "(string \<times> pyobj) list"
  | Credentials string "string list"

text \<open>
  Truth value testing, as \<^verbatim>\<open>x or y\<close> and \<^verbatim>\<open>if x:\<close> use it: \<^verbatim>\<open>None\<close>, \<^verbatim>\<open>False\<close>, zero
  and empty containers are false; a credentials object defines neither \<^verbatim>\<open>__bool__\<close> nor
  \<^verbatim>\<open>__len__\<close> and is true.
\<close>

fun truthy :: "pyobj \<Rightarrow> bool" where
  "truthy PyNone = False"
| "truthy (PyBool b) = b"
| "truthy (PyInt i) = (i \<noteq> 0)"
| "truthy (PyStr s) = (s \<noteq> [])"
| "truthy (PyList xs) = (xs \<noteq> [])"
| "truthy (PyDict kvs) = (kvs \<noteq> [])"
| "truthy (Credentials f scopes) = True"

text \<open>
  Exceptions. All of them are subclasses of \<^verbatim>\<open>Exception\<close>, which is what the library
  calls of the script raise. \<open>FileNotFoundError\<close> carries its message and, when the
  operating system raised it, the file name.
\<close>

datatype exn =
    FileNotFoundError string "string option"
  | TypeError string
  | OtherException string

text \<open>A JSON object of a response or a request body: keys in insertion order.\<close>

type_synonym pydict = "(string \<times> pyobj) list"

definition dict_get :: "pydict \<Rightarrow> string \<Rightarrow> pyobj \<Rightarrow> pyobj" where
  "dict_get d k dflt = (case map_of d k of None \<Rightarrow> dflt | Some v \<Rightarrow> v)"

text \<open>The arguments \<^verbatim>\<open>MediaFileUpload\<close> is constructed with.\<close>

record media =
  media_filename :: string
  media_mimetype :: "string option"
  media_resumable :: bool

text \<open>
  The requests the script builds. \<open>GetMedia file_id i\<close> is the \<open>i\<close>-th chunk request of a
  media download.
\<close>

datatype request =
    ValuesGet string string
  | ValuesUpdate string string string pydict
  | FilesCreate pydict media string
  | FilesGet string string
  | GetMedia string nat

text \<open>A client handle: the API name, its version and the credentials it is bound to.\<close>

type_synonym service = "string \<times> string \<times> pyobj"

text \<open>What \<^verbatim>\<open>print\<close> is given: literal text, an object, an exception, or the whole
  percentage \<^verbatim>\<open>int(status.progress() * 100)\<close> of a completion fraction (the model keeps the
  fraction and does not round it).\<close>

datatype printed = Txt string | Obj pyobj | Exn exn | PercentOf rat

text \<open>What the script does to the world, in order.\<close>

datatype event =
    LoadKeyFile string "string list"
  | Build string string pyobj
  | Execute service request
  | OpenFile nat string string
  | WriteFile nat string
  | CloseFile nat
  | Print "printed list"

text \<open>
  Modelled from the spec: the status object that the download library hands back with a
  chunk (\<^verbatim>\<open>MediaDownloadProgress\<close>; the library is not in the repository). It holds the
  bytes received so far and the total size when that is known, and the bytes received
  never exceed the total; its \<^verbatim>\<open>progress()\<close> is their quotient, or \<^verbatim>\<open>0.0\<close> when the total is
  unknown or zero: the completion fraction that the spec places in [0.0, 1.0]. The
  quotient of the two host floats is taken as the rational number.
\<close>

typedef download_progress =
  "{x :: nat \<times> nat option. case snd x of None \<Rightarrow> True | Some n \<Rightarrow> fst x \<le> n}"
  by (rule exI[of _ "(0, None)"]) simp

definition resumable_progress :: "download_progress \<Rightarrow> nat" where
  "resumable_progress st = fst (Rep_download_progress st)"

definition total_size :: "download_progress \<Rightarrow> nat option" where
  "total_size st = snd (Rep_download_progress st)"

definition progress :: "download_progress \<Rightarrow> rat" where
  "progress st =
     (case total_size st of
        None \<Rightarrow> 0
      | Some n \<Rightarrow> if n \<noteq> 0 then of_nat (resumable_progress st) / of_nat n else 0)"

text \<open>The status after \<open>p\<close> bytes of \<open>t\<close> (no more than \<open>t\<close>).\<close>

definition received :: "nat \<Rightarrow> nat \<Rightarrow> download_progress" where
  "received p t = Abs_download_progress (min p t, Some t)"

text \<open>The truth value of a status object: the class defines neither \<^verbatim>\<open>__bool__\<close> nor
  \<^verbatim>\<open>__len__\<close>, so every status is true.\<close>

definition truthy_status :: "download_progress \<Rightarrow> bool" where
  "truthy_status st = True"

text \<open>One answer of \<^verbatim>\<open>downloader.next_chunk()\<close>: an exception, or the pair
  \<^verbatim>\<open>(status, done)\<close> of a status object and a flag.\<close>

datatype chunk = ChunkError exn | Chunk download_progress bool

text \<open>
  The environment: the process environment, and how the libraries and the remote services
  behave. A remote service answers a request knowing every request that was executed
  before it.
\<close>

record env =
  environ :: "string \<Rightarrow> string option"
  key_file_error :: "string \<Rightarrow> string list \<Rightarrow> exn option"
  build_error :: "string \<Rightarrow> string \<Rightarrow> pyobj \<Rightarrow> exn option"
  open_error :: "string \<Rightarrow> string \<Rightarrow> exn option"
  respond :: "(service \<times> request) list \<Rightarrow> service \<Rightarrow> request \<Rightarrow> exn + pydict"
  next_chunk :: "service \<Rightarrow> string \<Rightarrow> nat \<Rightarrow> chunk"

text \<open>The world: the paths that exist on the local disk, and the events so far.\<close>

record world =
  files :: "string set"
  trace :: "event list"

type_synonym 'a result = "(exn + 'a) \<times> world"

definition emit :: "event \<Rightarrow> world \<Rightarrow> world" where
  "emit e w = w\<lparr>trace := trace w @ [e]\<rparr>"

fun is_open :: "event \<Rightarrow> bool" where
  "is_open (OpenFile h p m) = True"
| "is_open e = False"

text \<open>The requests among the events: the network calls.\<close>

fun requests :: "event list \<Rightarrow> (service \<times> request) list" where
  "requests [] = []"
| "requests (Execute s r # es) = (s, r) # requests es"
| "requests (e # es) = requests es"

section \<open>The library calls\<close>

text \<open>\<^verbatim>\<open>os.path.exists\<close>.\<close>

definition path_exists :: "world \<Rightarrow> string \<Rightarrow> bool" where
  "path_exists w p = (p \<in> files w)"

text \<open>\<^verbatim>\<open>service_account.Credentials.from_service_account_file\<close>: reads and parses the key
  file, without any request.\<close>

definition from_service_account_file :: "env \<Rightarrow> string \<Rightarrow> string list \<Rightarrow> world \<Rightarrow> pyobj result" where
  "from_service_account_file E sa_file scopes w =
     (case key_file_error E sa_file scopes of
        Some e \<Rightarrow> (Inl e, emit (LoadKeyFile sa_file scopes) w)
      | None \<Rightarrow> (Inr (Credentials sa_file scopes), emit (LoadKeyFile sa_file scopes) w))"

text \<open>\<^verbatim>\<open>build(name, version, credentials=creds)\<close>: opens a client handle bound to the
  credentials; the requests are the \<^verbatim>\<open>execute()\<close> calls.\<close>

definition build :: "env \<Rightarrow> string \<Rightarrow> string \<Rightarrow> pyobj \<Rightarrow> world \<Rightarrow> service result" where
  "build E name version creds w =
     (case build_error E name version creds of
        Some e \<Rightarrow> (Inl e, emit (Build name version creds) w)
      | None \<Rightarrow> (Inr (name, version, creds), emit (Build name version creds) w))"

text \<open>\<^verbatim>\<open>request.execute()\<close>: one request to the remote service.\<close>

definition execute :: "env \<Rightarrow> service \<Rightarrow> request \<Rightarrow> world \<Rightarrow> pydict result" where
  "execute E svc req w = (respond E (requests (trace w)) svc req, emit (Execute svc req) w)"

text \<open>A handle nobody has yet: the number of files opened so far.\<close>

definition fresh_handle :: "world \<Rightarrow> nat" where
  "fresh_handle w = length (filter is_open (trace w))"

text \<open>Opening a path for writing (\<^verbatim>\<open>io.FileIO(path, mode="wb")\<close>, \<^verbatim>\<open>open(path, "w")\<close>): the
  file exists afterwards.\<close>

definition open_write :: "env \<Rightarrow> string \<Rightarrow> string \<Rightarrow> world \<Rightarrow> nat result" where
  "open_write E path mode w =
     (case open_error E path mode of
        Some e \<Rightarrow> (Inl e, w)
      | None \<Rightarrow> (Inr (fresh_handle w),
                 emit (OpenFile (fresh_handle w) path mode) (w\<lparr>files := insert path (files w)\<rparr>)))"

definition close :: "nat \<Rightarrow> world \<Rightarrow> world" where
  "close h w = emit (CloseFile h) w"

definition py_print :: "printed list \<Rightarrow> world \<Rightarrow> world" where
  "py_print items w = emit (Print items) w"

section \<open>The script\<close>

subsection \<open>Module constants\<close>

definition SERVICE_ACCOUNT_FILE :: "env \<Rightarrow> string" where
  "SERVICE_ACCOUNT_FILE E =
     (case environ E ''GOOGLE_APPLICATION_CREDENTIALS'' of
        None \<Rightarrow> ''service_account.json''
      | Some p \<Rightarrow> p)"

definition SCOPES :: "string list" where
  "SCOPES = [''https://www.googleapis.com/auth/spreadsheets'',
             ''https://www.googleapis.com/auth/drive'']"

subsection \<open>Credential Loader\<close>

definition get_credentials :: "env \<Rightarrow> string \<Rightarrow> string list \<Rightarrow> world \<Rightarrow> pyobj result" where
  "get_credentials E sa_file scopes w =
     (if \<not> path_exists w sa_file
      then (Inl (FileNotFoundError (''Service account file not found: '' @ sa_file) None), w)
      else from_service_account_file E sa_file scopes w)"

text \<open>\<^verbatim>\<open>creds = creds or get_credentials()\<close>, the first line of every operation.\<close>

definition creds_or_default :: "env \<Rightarrow> pyobj \<Rightarrow> world \<Rightarrow> pyobj result" where
  "creds_or_default E creds w =
     (if truthy creds then (Inr creds, w)
      else get_credentials E (SERVICE_ACCOUNT_FILE E) SCOPES w)"

subsection \<open>Sheet Reader and Sheet Writer\<close>

definition read_sheet_values :: "env \<Rightarrow> string \<Rightarrow> string \<Rightarrow> pyobj \<Rightarrow> world \<Rightarrow> pyobj result" where
  "read_sheet_values E spreadsheet_id range_name creds w =
     (case creds_or_default E creds w of
        (Inl e, w1) \<Rightarrow> (Inl e, w1)
      | (Inr c, w1) \<Rightarrow>
     (case build E ''sheets'' ''v4'' c w1 of
        (Inl e, w2) \<Rightarrow> (Inl e, w2)
      | (Inr service, w2) \<Rightarrow>
     (case execute E service (ValuesGet spreadsheet_id range_name) w2 of
        (Inl e, w3) \<Rightarrow> (Inl e, w3)
      | (Inr result, w3) \<Rightarrow> (Inr (dict_get result ''values'' (PyList [])), w3))))"

definition write_sheet_values ::
  "env \<Rightarrow> string \<Rightarrow> string \<Rightarrow> pyobj \<Rightarrow> pyobj \<Rightarrow> string \<Rightarrow> world \<Rightarrow> pydict result" where
  "write_sheet_values E spreadsheet_id range_name vals creds value_input_option w =
     (case creds_or_default E creds w of
        (Inl e, w1) \<Rightarrow> (Inl e, w1)
      | (Inr c, w1) \<Rightarrow>
     (case build E ''sheets'' ''v4'' c w1 of
        (Inl e, w2) \<Rightarrow> (Inl e, w2)
      | (Inr service, w2) \<Rightarrow>
          execute E service
            (ValuesUpdate spreadsheet_id range_name value_input_option [(''values'', vals)]) w2))"

subsection \<open>File Uploader\<close>

text \<open>\<^verbatim>\<open>os.path.basename\<close> (POSIX): everything after the last slash.\<close>

definition basename :: "string \<Rightarrow> string" where
  "basename p = rev (takeWhile (\<lambda>c. c \<noteq> CHR ''/'') (rev p))"

text \<open>
  Modelled from the spec: the media constructor \<^verbatim>\<open>MediaFileUpload\<close> of the client
  library, which is not in the repository. It opens the local file for reading when it
  is constructed and makes no request; on a path that does not exist the operating system
  raises the "file not found" error (section 4.4 of the spec: the failure comes before
  any network call).
\<close>

definition MediaFileUpload :: "env \<Rightarrow> string \<Rightarrow> string option \<Rightarrow> bool \<Rightarrow> world \<Rightarrow> media result" where
  "MediaFileUpload E file_path mime_type res w =
     (if \<not> path_exists w file_path
      then (Inl (FileNotFoundError ''No such file or directory'' (Some file_path)), w)
      else (case open_error E file_path ''rb'' of
              Some e \<Rightarrow> (Inl e, w)
            | None \<Rightarrow>
                (Inr \<lparr>media_filename = file_path, media_mimetype = mime_type, media_resumable = res\<rparr>,
                 emit (OpenFile (fresh_handle w) file_path ''rb'') w)))"

text \<open>\<^verbatim>\<open>if parent_folder_id:\<close> on an optional string.\<close>

fun truthy_str :: "string option \<Rightarrow> bool" where
  "truthy_str None = False"
| "truthy_str (Some s) = (s \<noteq> [])"

text \<open>Lines 87 to 89: the metadata record of an upload.\<close>

definition file_metadata :: "string \<Rightarrow> string option \<Rightarrow> pydict" where
  "file_metadata file_path parent_folder_id =
     (if truthy_str parent_folder_id
      then [(''name'', PyStr (basename file_path)), (''parents'', PyList [PyStr (the parent_folder_id)])]
      else [(''name'', PyStr (basename file_path))])"

definition upload_file_to_drive ::
  "env \<Rightarrow> string \<Rightarrow> string option \<Rightarrow> pyobj \<Rightarrow> string option \<Rightarrow> world \<Rightarrow> pyobj result" where
  "upload_file_to_drive E file_path mime_type creds parent_folder_id w =
     (case creds_or_default E creds w of
        (Inl e, w1) \<Rightarrow> (Inl e, w1)
      | (Inr c, w1) \<Rightarrow>
     (case build E ''drive'' ''v3'' c w1 of
        (Inl e, w2) \<Rightarrow> (Inl e, w2)
      | (Inr drive_service, w2) \<Rightarrow>
     (case MediaFileUpload E file_path mime_type True w2 of
        (Inl e, w3) \<Rightarrow> (Inl e, w3)
      | (Inr media, w3) \<Rightarrow>
     (case execute E drive_service
             (FilesCreate (file_metadata file_path parent_folder_id) media ''id'') w3 of
        (Inl e, w4) \<Rightarrow> (Inl e, w4)
      | (Inr file, w4) \<Rightarrow> (Inr (dict_get file ''id'' PyNone), w4)))))"

subsection \<open>File Downloader\<close>

text \<open>\<^verbatim>\<open>if status: print(f"Download {int(status.progress() * 100)}%.")\<close>\<close>

definition report :: "download_progress \<Rightarrow> world \<Rightarrow> world" where
  "report status w =
     (if truthy_status status
      then py_print [Txt ''Download '', PercentOf (progress status), Txt ''%.''] w
      else w)"

text \<open>
  The loop \<^verbatim>\<open>while not done\<close>, entered with \<^verbatim>\<open>done = False\<close>; \<open>i\<close> counts the chunks
  fetched so far. Nothing in the script bounds the loop, so it is a partial function:
  \<open>None\<close> is a transfer that never ends.
\<close>

partial_function (option) download_loop ::
  "env \<Rightarrow> service \<Rightarrow> string \<Rightarrow> nat \<Rightarrow> world \<Rightarrow> unit result option" where
  "download_loop E svc file_id i w =
     (case next_chunk E svc file_id i of
        ChunkError e \<Rightarrow> Some (Inl e, emit (Execute svc (GetMedia file_id i)) w)
      | Chunk status done \<Rightarrow>
          (if done
           then Some (Inr (), report status (emit (Execute svc (GetMedia file_id i)) w))
           else download_loop E svc file_id (Suc i)
                  (report status (emit (Execute svc (GetMedia file_id i)) w))))"

definition download_file_from_drive ::
  "env \<Rightarrow> string \<Rightarrow> string \<Rightarrow> pyobj \<Rightarrow> world \<Rightarrow> string result option" where
  "download_file_from_drive E file_id destination_path creds w =
     (case creds_or_default E creds w of
        (Inl e, w1) \<Rightarrow> Some (Inl e, w1)
      | (Inr c, w1) \<Rightarrow>
     (case build E ''drive'' ''v3'' c w1 of
        (Inl e, w2) \<Rightarrow> Some (Inl e, w2)
      | (Inr drive_service, w2) \<Rightarrow>
     (case open_write E destination_path ''wb'' w2 of
        (Inl e, w3) \<Rightarrow> Some (Inl e, w3)
      | (Inr fh, w3) \<Rightarrow>
     (case download_loop E drive_service file_id 0 w3 of
        None \<Rightarrow> None
      | Some (Inl e, w4) \<Rightarrow> Some (Inl e, w4)
      | Some (Inr u, w4) \<Rightarrow> Some (Inr destination_path, close fh w4)))))"

subsection \<open>Metadata Fetcher\<close>

definition get_file_metadata :: "env \<Rightarrow> string \<Rightarrow> pyobj \<Rightarrow> world \<Rightarrow> pydict result" where
  "get_file_metadata E file_id creds w =
     (case creds_or_default E creds w of
        (Inl e, w1) \<Rightarrow> (Inl e, w1)
      | (Inr c, w1) \<Rightarrow>
     (case build E ''drive'' ''v3'' c w1 of
        (Inl e, w2) \<Rightarrow> (Inl e, w2)
      | (Inr drive_service, w2) \<Rightarrow>
          execute E drive_service (FilesGet file_id ''id, name, mimeType, size, parents'') w2))"

subsection \<open>The demonstration entry point\<close>









section \<open>Notions the properties are stated with\<close>

text \<open>How often a handle is closed in a run.\<close>

definition close_count :: "nat \<Rightarrow> event list \<Rightarrow> nat" where
  "close_count h tr = length (filter (\<lambda>e. e = CloseFile h) tr)"

text \<open>A mode of \<^verbatim>\<open>open\<close> truncates the file when it contains \<^verbatim>\<open>w\<close>.\<close>

definition truncating :: "string \<Rightarrow> bool" where
  "truncating mode = (CHR ''w'' \<in> set mode)"

text \<open>The events of the \<open>j\<close>-th pass through the download loop: the chunk request and,
  when the chunk arrived, the progress line for its status.\<close>

definition chunk_events :: "env \<Rightarrow> service \<Rightarrow> string \<Rightarrow> nat \<Rightarrow> event list" where
  "chunk_events E svc file_id j =
     Execute svc (GetMedia file_id j) #
     (case next_chunk E svc file_id j of
        ChunkError e \<Rightarrow> []
      | Chunk status d \<Rightarrow> [Print [Txt ''Download '', PercentOf (progress status), Txt ''%.'']])"

text \<open>The loop stops at the \<open>j\<close>-th chunk when fetching it raises or reports \<^verbatim>\<open>done\<close>; what
  the loop then yields; and the events of \<open>n\<close> passes starting with chunk \<open>i\<close>.\<close>

definition stops_at :: "env \<Rightarrow> service \<Rightarrow> string \<Rightarrow> nat \<Rightarrow> bool" where
  "stops_at E svc file_id j =
     (case next_chunk E svc file_id j of ChunkError e \<Rightarrow> True | Chunk status d \<Rightarrow> d)"

definition loop_outcome :: "env \<Rightarrow> service \<Rightarrow> string \<Rightarrow> nat \<Rightarrow> exn + unit" where
  "loop_outcome E svc file_id j =
     (case next_chunk E svc file_id j of ChunkError e \<Rightarrow> Inl e | Chunk status d \<Rightarrow> Inr ())"

definition loop_events :: "env \<Rightarrow> service \<Rightarrow> string \<Rightarrow> nat \<Rightarrow> nat \<Rightarrow> event list" where
  "loop_events E svc file_id i n = concat (map (chunk_events E svc file_id) [i..<i + n])"

text \<open>Splitting a string at a separator, as \<^verbatim>\<open>str.split(sep)\<close> does; the final path segment
  of a path is the last piece between slashes.\<close>

fun split_on :: "char \<Rightarrow> string \<Rightarrow> string list" where
  "split_on d [] = [[]]"
| "split_on d (c # cs) =
     (if c = d then [] # split_on d cs
      else (case split_on d cs of [] \<Rightarrow> [[c]] | s # ss \<Rightarrow> (c # s) # ss))"


text \<open>The field names of a field mask: the pieces between commas, without the blanks
  around them.\<close>

definition strip :: "string \<Rightarrow> string" where
  "strip s = rev (dropWhile (\<lambda>c. c = CHR '' '') (rev (dropWhile (\<lambda>c. c = CHR '' '') s)))"

definition field_names :: "string \<Rightarrow> string list" where
  "field_names field_mask = map strip (split_on CHR '','' field_mask)"

text \<open>A spreadsheet service reads a grid back, after the requests \<open>h\<close>, when every
  successful read of the range that comes right after an update of that range with the
  grid in the mode \<^verbatim>\<open>RAW\<close> carries the grid (no values at all for the empty grid).\<close>

definition reads_back :: "env \<Rightarrow> (service \<times> request) list \<Rightarrow> string \<Rightarrow> string \<Rightarrow> pyobj \<Rightarrow> bool" where
  "reads_back E h sid rng vals =
     (\<forall>s s' r'.
        respond E (h @ [(s, ValuesUpdate sid rng ''RAW'' [(''values'', vals)])]) s' (ValuesGet sid rng) = Inr r'
        \<longrightarrow> dict_get r' ''values'' (PyList []) = vals)"

section \<open>Sample environments\<close>

text \<open>The grid last written to a range, in a history of requests.\<close>

fun last_written :: "(service \<times> request) list \<Rightarrow> string \<Rightarrow> string \<Rightarrow> pyobj option" where
  "last_written [] sid rng = None"
| "last_written ((s, r) # h) sid rng =
     (case last_written h sid rng of
        Some g \<Rightarrow> Some g
      | None \<Rightarrow>
          (case r of
             ValuesUpdate sid' rng' opt body \<Rightarrow>
               (if sid' = sid \<and> rng' = rng then map_of body ''values'' else None)
           | _ \<Rightarrow> None))"

text \<open>How a read is answered from the grid stored for the range: a range without data
  comes without the key \<^verbatim>\<open>values\<close>.\<close>

definition answer_get :: "string \<Rightarrow> pyobj option \<Rightarrow> exn + pydict" where
  "answer_get rng stored =
     (case stored of
        None \<Rightarrow> Inr [(''range'', PyStr rng)]
      | Some g \<Rightarrow>
          (if g = PyList [] then Inr [(''range'', PyStr rng)]
           else Inr [(''range'', PyStr rng), (''values'', g)]))"

text \<open>A service that keeps every grid as it was written, and that answers a metadata
  request with the fields of the field mask.\<close>

fun verbatim_service :: "(service \<times> request) list \<Rightarrow> service \<Rightarrow> request \<Rightarrow> exn + pydict" where
  "verbatim_service h s (ValuesGet sid rng) = answer_get rng (last_written h sid rng)"
| "verbatim_service h s (ValuesUpdate sid rng opt body) =
     Inr [(''spreadsheetId'', PyStr sid), (''updatedRange'', PyStr rng)]"
| "verbatim_service h s (FilesCreate body m field_mask) = Inr [(''id'', PyStr ''file-1'')]"
| "verbatim_service h s (FilesGet file_id field_mask) =
     Inr (filter (\<lambda>kv. fst kv \<in> set (field_names field_mask))
            [(''kind'', PyStr ''drive#file''), (''id'', PyStr file_id),
             (''name'', PyStr ''report.csv''), (''mimeType'', PyStr ''text/csv''),
             (''size'', PyStr ''2048''), (''parents'', PyList [PyStr ''root''])])"
| "verbatim_service h s (GetMedia file_id i) = Inr []"

text \<open>A service that reads a range back without its trailing empty cells and rows, as
  spreadsheet services do.\<close>

fun is_blank :: "pyobj \<Rightarrow> bool" where
  "is_blank (PyStr s) = (s = [])"
| "is_blank (PyList xs) = (xs = [])"
| "is_blank x = False"

definition drop_trailing_blanks :: "pyobj list \<Rightarrow> pyobj list" where
  "drop_trailing_blanks xs = rev (dropWhile is_blank (rev xs))"

fun trim_row :: "pyobj \<Rightarrow> pyobj" where
  "trim_row (PyList cells) = PyList (drop_trailing_blanks cells)"
| "trim_row x = x"

fun trim_grid :: "pyobj \<Rightarrow> pyobj" where
  "trim_grid (PyList rows) = PyList (drop_trailing_blanks (map trim_row rows))"
| "trim_grid x = x"

fun trimming_service :: "(service \<times> request) list \<Rightarrow> service \<Rightarrow> request \<Rightarrow> exn + pydict" where
  "trimming_service h s (ValuesGet sid rng) = answer_get rng (map_option trim_grid (last_written h sid rng))"
| "trimming_service h s r = verbatim_service h s r"

text \<open>An environment in which nothing fails: the key file parses, every client is
  built, every file opens, and a download is one chunk long.\<close>

definition calm_env :: env where
  "calm_env =
     \<lparr>environ = (\<lambda>k. None),
      key_file_error = (\<lambda>p scopes. None),
      build_error = (\<lambda>name version creds. None),
      open_error = (\<lambda>p mode. None),
      respond = verbatim_service,
      next_chunk = (\<lambda>svc file_id i. Chunk (received 1 1) True)\<rparr>"

text \<open>The same with the trimming spreadsheet service.\<close>

definition trimming_env :: env where
  "trimming_env = calm_env\<lparr>respond := trimming_service\<rparr>"

text \<open>A download whose first chunk arrives (half of the file) and whose second request
  fails.\<close>

definition broken_transfer_env :: env where
  "broken_transfer_env =
     calm_env\<lparr>next_chunk := (\<lambda>svc file_id i.
        if i = 0 then Chunk (received 1 2) False else ChunkError (OtherException ''connection reset''))\<rparr>"

text \<open>A download of two chunks: half of the file, then the rest.\<close>

definition two_chunk_env :: env where
  "two_chunk_env =
     calm_env\<lparr>next_chunk := (\<lambda>svc file_id i.
        if i = 0 then Chunk (received 1 2) False else Chunk (received 2 2) True)\<rparr>"



text \<open>A download that never ends: every chunk arrives and none is the last.\<close>

definition endless_env :: env where
  "endless_env = calm_env\<lparr>next_chunk := (\<lambda>svc file_id i. Chunk (received 0 1) False)\<rparr>"

text \<open>A client builder that fails.\<close>

definition no_client_env :: env where
  "no_client_env =
     calm_env\<lparr>build_error := (\<lambda>name version creds. Some (OtherException ''unknown api''))\<rparr>"



text \<open>A key file that exists and does not parse.\<close>

definition bad_key_env :: env where
  "bad_key_env = calm_env\<lparr>key_file_error := (\<lambda>p scopes. Some (OtherException ''malformed key file''))\<rparr>"

text \<open>A service account, and two disks: an empty one, and one with the default key file.\<close>

definition some_creds :: pyobj where
  "some_creds = Credentials ''key.json'' SCOPES"

definition empty_disk :: world where
  "empty_disk = \<lparr>files = {}, trace = []\<rparr>"

definition key_disk :: world where
  "key_disk = \<lparr>files = {''service_account.json''}, trace = []\<rparr>"

text \<open>A grid, a world in which it has just been written to a range, and a disk with a
  file to upload.\<close>

definition name_age_grid :: pyobj where
  "name_age_grid = PyList [PyList [PyStr ''Name'', PyStr ''Age''], PyList [PyStr ''Alice'', PyStr ''30'']]"


definition report_disk :: world where
  "report_disk = \<lparr>files = {''docs/report.csv''}, trace = []\<rparr>"

section \<open>Facts about the model\<close>

lemma requests_append: "requests (xs @ ys) = requests xs @ requests ys"
  by (induction xs rule: requests.induct) auto

lemma get_credentials_truthy:
  "get_credentials E sa_file scopes w = (Inr c, w1) \<Longrightarrow> truthy c"
  by (auto simp: get_credentials_def from_service_account_file_def split: if_splits option.splits)

lemma get_credentials_world:
  "get_credentials E sa_file scopes w = (r, w1) \<Longrightarrow>
   files w1 = files w \<and> requests (trace w1) = requests (trace w)"
  by (auto simp: get_credentials_def from_service_account_file_def emit_def requests_append
      split: if_splits option.splits)

lemma creds_or_default_world:
  "creds_or_default E creds w = (r, w1) \<Longrightarrow>
   files w1 = files w \<and> requests (trace w1) = requests (trace w)"
  by (auto simp: creds_or_default_def dest: get_credentials_world split: if_splits)

lemma fresh_handle_emit_Build: "fresh_handle (emit (Build a b c) w) = fresh_handle w"
  by (simp add: fresh_handle_def emit_def)

subsection \<open>The download loop\<close>

lemma loop_events_Suc:
  "loop_events E svc file_id i (Suc n) =
     chunk_events E svc file_id i @ loop_events E svc file_id (Suc i) n"
  by (simp add: loop_events_def upt_rec)

lemma loop_events_0: "loop_events E svc file_id i 0 = []"
  by (simp add: loop_events_def)

lemma pass_world:
  "report status (emit (Execute svc (GetMedia file_id i)) w)
     = w\<lparr>trace := trace w @ [Execute svc (GetMedia file_id i),
          Print [Txt ''Download '', PercentOf (progress status), Txt ''%.'']]\<rparr>"
  by (simp add: report_def truthy_status_def emit_def py_print_def)

lemma progress_received:
  "progress (received p t) = (if t = 0 then 0 else of_nat (min p t) / of_nat t)"
  by (simp add: progress_def total_size_def resumable_progress_def received_def
        Abs_download_progress_inverse)

lemma progress_bounds: "0 \<le> progress st \<and> progress st \<le> 1"
proof (cases "Rep_download_progress st")
  case (Pair p t)
  with Rep_download_progress[of st] show ?thesis
    by (cases t) (auto simp: progress_def total_size_def resumable_progress_def)
qed

text \<open>The loop returns as soon as a chunk stops it: then it has made one pass for each
  chunk up to that one.\<close>

lemma download_loop_runs:
  "stops_at E svc file_id (i + n) \<Longrightarrow> (\<forall>j<n. \<not> stops_at E svc file_id (i + j)) \<Longrightarrow>
   download_loop E svc file_id i w =
     Some (loop_outcome E svc file_id (i + n),
           w\<lparr>trace := trace w @ loop_events E svc file_id i (Suc n)\<rparr>)"
proof (induction n arbitrary: i w)
  case 0
  then show ?case
    by (subst download_loop.simps)
       (auto simp: stops_at_def loop_outcome_def loop_events_Suc loop_events_0 chunk_events_def
          report_def truthy_status_def py_print_def emit_def split: chunk.splits)
next
  case (Suc n)
  from Suc.prems(2) have now: "\<not> stops_at E svc file_id i"
    by (metis add.right_neutral zero_less_Suc)
  from Suc.prems have later:
    "stops_at E svc file_id (Suc i + n)" "\<forall>j<n. \<not> stops_at E svc file_id (Suc i + j)"
    by auto
  obtain status where nc: "next_chunk E svc file_id i = Chunk status False"
    using now by (auto simp: stops_at_def split: chunk.splits)
  let ?w = "report status (emit (Execute svc (GetMedia file_id i)) w)"
  have "download_loop E svc file_id i w = download_loop E svc file_id (Suc i) ?w"
    by (subst download_loop.simps) (simp add: nc)
  also have "\<dots> = Some (loop_outcome E svc file_id (Suc i + n),
      ?w\<lparr>trace := trace ?w @ loop_events E svc file_id (Suc i) (Suc n)\<rparr>)"
    by (rule Suc.IH[OF later])
  finally show ?case
    by (simp add: pass_world loop_events_Suc[of E svc file_id i "Suc n"] chunk_events_def nc)
qed

text \<open>After any number of passes that do not end it, the loop goes on from the world in
  which each of these chunks was requested and then reported; this holds of the downloads
  that never end as well.\<close>

lemma download_loop_after:
  "(\<forall>j<n. \<not> stops_at E svc file_id (i + j)) \<Longrightarrow>
   download_loop E svc file_id i w =
     download_loop E svc file_id (i + n) (w\<lparr>trace := trace w @ loop_events E svc file_id i n\<rparr>)"
proof (induction n arbitrary: i w)
  case 0
  then show ?case by (simp add: loop_events_0)
next
  case (Suc n)
  from Suc.prems have now: "\<not> stops_at E svc file_id i"
    by (metis add.right_neutral zero_less_Suc)
  from Suc.prems have later: "\<forall>j<n. \<not> stops_at E svc file_id (Suc i + j)"
    by auto
  obtain status where nc: "next_chunk E svc file_id i = Chunk status False"
    using now by (auto simp: stops_at_def split: chunk.splits)
  let ?w = "report status (emit (Execute svc (GetMedia file_id i)) w)"
  have "download_loop E svc file_id i w = download_loop E svc file_id (Suc i) ?w"
    by (subst download_loop.simps) (simp add: nc)
  also have "\<dots> = download_loop E svc file_id (Suc i + n)
                      (?w\<lparr>trace := trace ?w @ loop_events E svc file_id (Suc i) n\<rparr>)"
    by (rule Suc.IH[OF later])
  finally show ?case
    by (simp add: pass_world loop_events_Suc[of E svc file_id i n] chunk_events_def nc)
qed

text \<open>And it returns only then.\<close>

lemma download_loop_stops:
  assumes "download_loop E svc file_id i w = Some res"
  shows "\<exists>n. stops_at E svc file_id (i + n) \<and> (\<forall>j<n. \<not> stops_at E svc file_id (i + j))"
  using assms
proof (induction E svc file_id i w res rule: download_loop.raw_induct[rotated 1, consumes 1])
  case (1 dl E svc file_id i w res)
  show ?case
  proof (cases "stops_at E svc file_id i")
    case True
    then show ?thesis by (intro exI[of _ 0]) simp
  next
    case False
    then obtain status where nc: "next_chunk E svc file_id i = Chunk status False"
      by (auto simp: stops_at_def split: chunk.splits)
    with 1(2) have "dl E svc file_id (Suc i) (report status (emit (Execute svc (GetMedia file_id i)) w)) = Some res"
      by simp
    from 1(1)[OF this] obtain n where
      n: "stops_at E svc file_id (Suc i + n)" "\<forall>j<n. \<not> stops_at E svc file_id (Suc i + j)"
      by blast
    show ?thesis
    proof (intro exI[of _ "Suc n"] conjI allI impI)
      show "stops_at E svc file_id (i + Suc n)" using n(1) by simp
    next
      fix j assume "j < Suc n"
      then show "\<not> stops_at E svc file_id (i + j)"
        using False n(2) by (cases j) auto
    qed
  qed
qed

lemma download_loop_result:
  assumes "download_loop E svc file_id i w = Some (r, w')"
  shows "\<exists>n. stops_at E svc file_id (i + n) \<and> (\<forall>j<n. \<not> stops_at E svc file_id (i + j)) \<and>
             r = loop_outcome E svc file_id (i + n) \<and>
             w' = w\<lparr>trace := trace w @ loop_events E svc file_id i (Suc n)\<rparr>"
proof -
  from download_loop_stops[OF assms] obtain n where
    n: "stops_at E svc file_id (i + n)" "\<forall>j<n. \<not> stops_at E svc file_id (i + j)" by blast
  from download_loop_runs[OF n, of w] assms show ?thesis
    using n by auto
qed

subsection \<open>The download as a whole\<close>

lemma download_unfolded:
  assumes "creds_or_default E creds w = (Inr c, w1)"
      and "build_error E ''drive'' ''v3'' c = None"
      and "open_error E dest ''wb'' = None"
  shows "download_file_from_drive E file_id dest creds w =
           (case download_loop E (''drive'', ''v3'', c) file_id 0
                   (w1\<lparr>files := insert dest (files w1),
                       trace := trace w1 @ [Build ''drive'' ''v3'' c, OpenFile (fresh_handle w1) dest ''wb'']\<rparr>) of
              None \<Rightarrow> None
            | Some (Inl e, w4) \<Rightarrow> Some (Inl e, w4)
            | Some (Inr u, w4) \<Rightarrow> Some (Inr dest, close (fresh_handle w1) w4))"
  using assms
  by (simp add: download_file_from_drive_def build_def open_write_def fresh_handle_emit_Build
        cong: option.case_cong prod.case_cong sum.case_cong)
     (simp add: emit_def)

text \<open>What a download that returns has done, once it has its credentials, its client and
  its destination file: one pass for each chunk up to the one that stopped the loop, and
  then the \<^verbatim>\<open>close\<close> of line 116 if the loop ended without an exception.\<close>

lemma download_trace:
  assumes run: "download_file_from_drive E file_id dest creds w = Some (r, w')"
      and creds: "creds_or_default E creds w = (Inr c, w1)"
      and built: "build_error E ''drive'' ''v3'' c = None"
      and opened: "open_error E dest ''wb'' = None"
  shows "\<exists>n. stops_at E (''drive'', ''v3'', c) file_id n \<and>
             (\<forall>j<n. \<not> stops_at E (''drive'', ''v3'', c) file_id j) \<and>
             r = map_sum id (\<lambda>u. dest) (loop_outcome E (''drive'', ''v3'', c) file_id n) \<and>
             trace w' = trace w1 @ [Build ''drive'' ''v3'' c, OpenFile (fresh_handle w1) dest ''wb'']
                        @ loop_events E (''drive'', ''v3'', c) file_id 0 (Suc n)
                        @ (case r of Inl e \<Rightarrow> [] | Inr p \<Rightarrow> [CloseFile (fresh_handle w1)])"
proof -
  let ?svc = "(''drive'', ''v3'', c)"
  let ?w3 = "w1\<lparr>files := insert dest (files w1),
                 trace := trace w1 @ [Build ''drive'' ''v3'' c, OpenFile (fresh_handle w1) dest ''wb'']\<rparr>"
  from run download_unfolded[OF creds built opened, of file_id]
  obtain r0 w4 where loop: "download_loop E ?svc file_id 0 ?w3 = Some (r0, w4)"
    and res: "(r, w') = (case r0 of Inl e \<Rightarrow> (Inl e, w4) | Inr u \<Rightarrow> (Inr dest, close (fresh_handle w1) w4))"
    by (auto split: option.splits sum.splits)
  from download_loop_result[OF loop] obtain n where
    n: "stops_at E ?svc file_id n" "\<forall>j<n. \<not> stops_at E ?svc file_id j"
       "r0 = loop_outcome E ?svc file_id n"
       "w4 = ?w3\<lparr>trace := trace ?w3 @ loop_events E ?svc file_id 0 (Suc n)\<rparr>"
    by auto
  show ?thesis
    using res n by (intro exI[of _ n]) (auto simp: close_def emit_def split: sum.splits)
qed

lemma close_count_append: "close_count h (xs @ ys) = close_count h xs + close_count h ys"
  by (simp add: close_count_def)

lemma close_count_Nil: "close_count h [] = 0"
  by (simp add: close_count_def)

lemma close_count_Cons:
  "close_count h (e # es) = (if e = CloseFile h then 1 else 0) + close_count h es"
  by (simp add: close_count_def)

lemma close_count_loop_events: "close_count h (loop_events E svc file_id i n) = 0"
  by (induction n arbitrary: i)
     (auto simp: loop_events_0 loop_events_Suc close_count_append chunk_events_def close_count_def
        split: chunk.splits)

text \<open>The handle is closed once by a download that succeeds, and not at all by a download
  that a chunk request aborts.\<close>

lemma download_close_count:
  assumes "download_file_from_drive E file_id dest creds w = Some (r, w')"
      and "creds_or_default E creds w = (Inr c, w1)"
      and "build_error E ''drive'' ''v3'' c = None"
      and "open_error E dest ''wb'' = None"
  shows "close_count (fresh_handle w1) (trace w') =
           close_count (fresh_handle w1) (trace w1) + (case r of Inl e \<Rightarrow> 0 | Inr p \<Rightarrow> 1)"
proof -
  from download_trace[OF assms] obtain n where
    "trace w' = trace w1 @ [Build ''drive'' ''v3'' c, OpenFile (fresh_handle w1) dest ''wb'']
                 @ loop_events E (''drive'', ''v3'', c) file_id 0 (Suc n)
                 @ (case r of Inl e \<Rightarrow> [] | Inr p \<Rightarrow> [CloseFile (fresh_handle w1)])"
    by blast
  then show ?thesis
    by (simp add: close_count_append close_count_Cons close_count_Nil close_count_loop_events
        split: sum.splits)
qed

lemma download_never_stops:
  assumes "\<forall>j. \<not> stops_at E svc file_id (i + j)"
  shows "download_loop E svc file_id i w = None"
proof (cases "download_loop E svc file_id i w")
  case None
  then show ?thesis .
next
  case (Some res)
  from download_loop_stops[OF this] assms show ?thesis by blast
qed

lemma loop_events_explicit:
  "loop_events E svc file_id 0 n =
     concat (map (\<lambda>j. Execute svc (GetMedia file_id j) #
                       (case next_chunk E svc file_id j of
                          ChunkError e \<Rightarrow> []
                        | Chunk status d \<Rightarrow> [Print [Txt ''Download '', PercentOf (progress status), Txt ''%.'']]))
                 [0..<n])"
  unfolding loop_events_def chunk_events_def by simp

lemma download_returns:
  assumes creds: "creds_or_default E creds w = (Inr c, w1)"
      and built: "build_error E ''drive'' ''v3'' c = None"
      and opened: "open_error E dest ''wb'' = None"
      and stop: "stops_at E (''drive'', ''v3'', c) file_id n"
      and before: "\<forall>j<n. \<not> stops_at E (''drive'', ''v3'', c) file_id j"
  shows "\<exists>w'. download_file_from_drive E file_id dest creds w =
                 Some (map_sum id (\<lambda>u. dest) (loop_outcome E (''drive'', ''v3'', c) file_id n), w') \<and>
               trace w' = trace w1 @ [Build ''drive'' ''v3'' c, OpenFile (fresh_handle w1) dest ''wb'']
                          @ loop_events E (''drive'', ''v3'', c) file_id 0 (Suc n)
                          @ (case loop_outcome E (''drive'', ''v3'', c) file_id n of
                               Inl e \<Rightarrow> [] | Inr u \<Rightarrow> [CloseFile (fresh_handle w1)])"
proof -
  let ?svc = "(''drive'', ''v3'', c)"
  let ?w3 = "w1\<lparr>files := insert dest (files w1),
                 trace := trace w1 @ [Build ''drive'' ''v3'' c, OpenFile (fresh_handle w1) dest ''wb'']\<rparr>"
  from stop before have
    "download_loop E ?svc file_id 0 ?w3 =
       Some (loop_outcome E ?svc file_id (0 + n),
             ?w3\<lparr>trace := trace ?w3 @ loop_events E ?svc file_id 0 (Suc n)\<rparr>)"
    by (intro download_loop_runs) auto
  then show ?thesis
    unfolding download_unfolded[OF creds built opened]
    by (cases "loop_outcome E ?svc file_id n") (auto simp: close_def emit_def)
qed

subsection \<open>What the operations leave in the trace\<close>

lemma read_sheet_values_trace:
  assumes "truthy creds"
  shows "\<exists>a. trace (snd (read_sheet_values E sid rng creds w)) = trace w @ Build ''sheets'' ''v4'' creds # a"
    and "files (snd (read_sheet_values E sid rng creds w)) = files w"
  using assms
  by (auto simp: read_sheet_values_def creds_or_default_def build_def execute_def emit_def
      split: option.splits sum.splits)

lemma write_sheet_values_trace:
  assumes "truthy creds"
  shows "\<exists>a. trace (snd (write_sheet_values E sid rng vals creds opt w)) = trace w @ Build ''sheets'' ''v4'' creds # a"
    and "files (snd (write_sheet_values E sid rng vals creds opt w)) = files w"
  using assms
  by (auto simp: write_sheet_values_def creds_or_default_def build_def execute_def emit_def
      split: option.splits sum.splits)

lemma upload_file_to_drive_trace:
  assumes "truthy creds"
  shows "\<exists>a. trace (snd (upload_file_to_drive E p mt creds parent w)) = trace w @ Build ''drive'' ''v3'' creds # a"
    and "files (snd (upload_file_to_drive E p mt creds parent w)) = files w"
  using assms
  by (auto simp: upload_file_to_drive_def creds_or_default_def build_def execute_def emit_def
        MediaFileUpload_def
      split: option.splits sum.splits)







subsection \<open>What a read and a write ask and return\<close>

lemma read_sheet_values_result:
  assumes "read_sheet_values E sid rng creds w = (Inr grid, w')"
  shows "\<exists>svc pre resp.
           trace w' = trace w @ pre @ [Execute svc (ValuesGet sid rng)] \<and> requests pre = [] \<and>
           respond E (requests (trace w)) svc (ValuesGet sid rng) = Inr resp \<and>
           grid = dict_get resp ''values'' (PyList [])"
proof -
  obtain c w1 where cd: "creds_or_default E creds w = (Inr c, w1)"
    using assms by (auto simp: read_sheet_values_def split: prod.splits sum.splits)
  then obtain pre0 where pre0: "trace w1 = trace w @ pre0" "requests pre0 = []"
    by (auto simp: creds_or_default_def get_credentials_def from_service_account_file_def emit_def
        split: if_splits option.splits)
  from assms cd pre0 show ?thesis
    by (auto simp: read_sheet_values_def build_def execute_def emit_def requests_append
        split: option.splits sum.splits
        intro!: exI[of _ "(''sheets'', ''v4'', c)"] exI[of _ "pre0 @ [Build ''sheets'' ''v4'' c]"])
qed

lemma write_sheet_values_result:
  assumes "write_sheet_values E sid rng vals creds opt w = (Inr summary, w')"
  shows "\<exists>svc. requests (trace w') =
                 requests (trace w) @ [(svc, ValuesUpdate sid rng opt [(''values'', vals)])] \<and>
               respond E (requests (trace w)) svc (ValuesUpdate sid rng opt [(''values'', vals)]) = Inr summary"
proof -
  obtain c w1 where cd: "creds_or_default E creds w = (Inr c, w1)"
    using assms by (auto simp: write_sheet_values_def split: prod.splits sum.splits)
  from creds_or_default_world[OF cd] have "requests (trace w1) = requests (trace w)" by simp
  with assms cd show ?thesis
    by (auto simp: write_sheet_values_def build_def execute_def emit_def requests_append
        split: option.splits sum.splits)
qed

lemma last_written_after_update:
  "last_written (h @ [(s, ValuesUpdate sid rng opt [(''values'', vals)])]) sid rng = Some vals"
  by (induction h) auto

subsection \<open>Paths and field masks\<close>








subsection \<open>What an upload asks and returns\<close>


subsection \<open>The credential argument\<close>

lemma creds_or_default_truthy: "truthy c \<Longrightarrow> creds_or_default E c w = (Inr c, w)"
  by (simp add: creds_or_default_def)

lemma creds_or_default_falsy:
  "\<not> truthy c \<Longrightarrow> creds_or_default E c w = get_credentials E (SERVICE_ACCOUNT_FILE E) SCOPES w"
  by (simp add: creds_or_default_def)

lemma read_sheet_values_falsy:
  assumes "\<not> truthy creds"
  shows "read_sheet_values E sid rng creds w =
           (case get_credentials E (SERVICE_ACCOUNT_FILE E) SCOPES w of
              (Inl e, w1) \<Rightarrow> (Inl e, w1)
            | (Inr c, w1) \<Rightarrow> read_sheet_values E sid rng c w1)"
proof -
  obtain r w1 where g: "get_credentials E (SERVICE_ACCOUNT_FILE E) SCOPES w = (r, w1)" by force
  show ?thesis
  proof (cases r)
    case (Inl e)
    with g assms show ?thesis by (simp add: read_sheet_values_def creds_or_default_falsy)
  next
    case (Inr c)
    with g have "truthy c" by (auto dest: get_credentials_truthy)
    with g Inr assms show ?thesis
      by (simp add: read_sheet_values_def creds_or_default_falsy creds_or_default_truthy)
  qed
qed

lemma write_sheet_values_falsy:
  assumes "\<not> truthy creds"
  shows "write_sheet_values E sid rng vals creds opt w =
           (case get_credentials E (SERVICE_ACCOUNT_FILE E) SCOPES w of
              (Inl e, w1) \<Rightarrow> (Inl e, w1)
            | (Inr c, w1) \<Rightarrow> write_sheet_values E sid rng vals c opt w1)"
proof -
  obtain r w1 where g: "get_credentials E (SERVICE_ACCOUNT_FILE E) SCOPES w = (r, w1)" by force
  show ?thesis
  proof (cases r)
    case (Inl e)
    with g assms show ?thesis by (simp add: write_sheet_values_def creds_or_default_falsy)
  next
    case (Inr c)
    with g have "truthy c" by (auto dest: get_credentials_truthy)
    with g Inr assms show ?thesis
      by (simp add: write_sheet_values_def creds_or_default_falsy creds_or_default_truthy)
  qed
qed

lemma upload_file_to_drive_falsy:
  assumes "\<not> truthy creds"
  shows "upload_file_to_drive E p mt creds parent w =
           (case get_credentials E (SERVICE_ACCOUNT_FILE E) SCOPES w of
              (Inl e, w1) \<Rightarrow> (Inl e, w1)
            | (Inr c, w1) \<Rightarrow> upload_file_to_drive E p mt c parent w1)"
proof -
  obtain r w1 where g: "get_credentials E (SERVICE_ACCOUNT_FILE E) SCOPES w = (r, w1)" by force
  show ?thesis
  proof (cases r)
    case (Inl e)
    with g assms show ?thesis by (simp add: upload_file_to_drive_def creds_or_default_falsy)
  next
    case (Inr c)
    with g have "truthy c" by (auto dest: get_credentials_truthy)
    with g Inr assms show ?thesis
      by (simp add: upload_file_to_drive_def creds_or_default_falsy creds_or_default_truthy)
  qed
qed

lemma download_file_from_drive_falsy:
  assumes "\<not> truthy creds"
  shows "download_file_from_drive E file_id dest creds w =
           (case get_credentials E (SERVICE_ACCOUNT_FILE E) SCOPES w of
              (Inl e, w1) \<Rightarrow> Some (Inl e, w1)
            | (Inr c, w1) \<Rightarrow> download_file_from_drive E file_id dest c w1)"
proof -
  obtain r w1 where g: "get_credentials E (SERVICE_ACCOUNT_FILE E) SCOPES w = (r, w1)" by force
  show ?thesis
  proof (cases r)
    case (Inl e)
    with g assms show ?thesis by (simp add: download_file_from_drive_def creds_or_default_falsy)
  next
    case (Inr c)
    with g have "truthy c" by (auto dest: get_credentials_truthy)
    with g Inr assms show ?thesis
      by (simp add: download_file_from_drive_def creds_or_default_falsy creds_or_default_truthy)
  qed
qed

lemma get_file_metadata_falsy:
  assumes "\<not> truthy creds"
  shows "get_file_metadata E file_id creds w =
           (case get_credentials E (SERVICE_ACCOUNT_FILE E) SCOPES w of
              (Inl e, w1) \<Rightarrow> (Inl e, w1)
            | (Inr c, w1) \<Rightarrow> get_file_metadata E file_id c w1)"
proof -
  obtain r w1 where g: "get_credentials E (SERVICE_ACCOUNT_FILE E) SCOPES w = (r, w1)" by force
  show ?thesis
  proof (cases r)
    case (Inl e)
    with g assms show ?thesis by (simp add: get_file_metadata_def creds_or_default_falsy)
  next
    case (Inr c)
    with g have "truthy c" by (auto dest: get_credentials_truthy)
    with g Inr assms show ?thesis
      by (simp add: get_file_metadata_def creds_or_default_falsy creds_or_default_truthy)
  qed
qed

lemma get_file_metadata_trace:
  assumes "truthy creds"
  shows "\<exists>a. trace (snd (get_file_metadata E file_id creds w)) = trace w @ Build ''drive'' ''v3'' creds # a"
  using assms
  by (auto simp: get_file_metadata_def creds_or_default_def build_def execute_def emit_def
      split: option.splits sum.splits)

lemma download_file_from_drive_trace:
  assumes "truthy creds" and run: "download_file_from_drive E file_id dest creds w = Some (r, w')"
  shows "\<exists>a. trace w' = trace w @ Build ''drive'' ''v3'' creds # a"
proof -
  have cd: "creds_or_default E creds w = (Inr creds, w)"
    using assms(1) by (rule creds_or_default_truthy)
  show ?thesis
  proof (cases "build_error E ''drive'' ''v3'' creds")
    case (Some e)
    with run cd show ?thesis
      by (auto simp: download_file_from_drive_def build_def emit_def)
  next
    case built: None
    show ?thesis
    proof (cases "open_error E dest ''wb''")
      case (Some e)
      with run cd built show ?thesis
        by (auto simp: download_file_from_drive_def build_def open_write_def emit_def)
    next
      case None
      from download_trace[OF run cd built None] show ?thesis by auto
    qed
  qed
qed

section \<open>File Downloader: the destination handle\<close>

text \<open>
  C1. The File Downloader is to close its destination handle exactly once, also when the
  transfer fails partway. It does not: in the run below the first chunk arrives, the
  second chunk request raises, and the exception leaves \<^verbatim>\<open>download_file_from_drive\<close>
  from inside the loop, so that the \<^verbatim>\<open>fh.close()\<close> after the loop is never reached. The
  handle 0 is opened and is closed zero times.
\<close>

theorem download_failure_leaves_handle_open:
  "download_file_from_drive broken_transfer_env ''F'' ''out.bin'' some_creds empty_disk =
     Some (Inl (OtherException ''connection reset''),
           \<lparr>files = {''out.bin''},
            trace = [Build ''drive'' ''v3'' some_creds,
                     OpenFile 0 ''out.bin'' ''wb'',
                     Execute (''drive'', ''v3'', some_creds) (GetMedia ''F'' 0),
                     Print [Txt ''Download '', PercentOf (1 / 2), Txt ''%.''],
                     Execute (''drive'', ''v3'', some_creds) (GetMedia ''F'' 1)]\<rparr>) \<and>
   close_count 0
     [Build ''drive'' ''v3'' some_creds,
      OpenFile 0 ''out.bin'' ''wb'',
      Execute (''drive'', ''v3'', some_creds) (GetMedia ''F'' 0),
      Print [Txt ''Download '', PercentOf (1 / 2), Txt ''%.''],
      Execute (''drive'', ''v3'', some_creds) (GetMedia ''F'' 1)] = 0"
  by (simp add: download_file_from_drive_def creds_or_default_def some_creds_def build_def
        broken_transfer_env_def calm_env_def open_write_def emit_def fresh_handle_def
        empty_disk_def download_loop.simps report_def truthy_status_def progress_received py_print_def close_count_def)

section \<open>The demonstration entry point\<close>




section \<open>File Uploader: a missing local file\<close>

text \<open>
  C3, as amended. For every local path that does not exist, the File Uploader fails, and
  it has made no request when it fails. What it raises is the failure of loading the
  default credentials, when no true credential was passed in and the loading fails; else
  the failure of building the client, when that fails; else the "file not found" error of
  the local path.
\<close>

theorem upload_missing_file:
  assumes "file_path \<notin> files w"
  shows "\<exists>e w'. upload_file_to_drive E file_path mime_type creds parent_folder_id w = (Inl e, w') \<and>
           requests (trace w') = requests (trace w) \<and>
           (\<forall>e0 w1. creds_or_default E creds w = (Inl e0, w1) \<longrightarrow> e = e0) \<and>
           (\<forall>c w1 e1. creds_or_default E creds w = (Inr c, w1) \<and>
                       build_error E ''drive'' ''v3'' c = Some e1 \<longrightarrow> e = e1) \<and>
           (\<forall>c w1. creds_or_default E creds w = (Inr c, w1) \<and>
                    build_error E ''drive'' ''v3'' c = None
              \<longrightarrow> e = FileNotFoundError ''No such file or directory'' (Some file_path))"
proof -
  obtain r w1 where cd: "creds_or_default E creds w = (r, w1)" by force
  from creds_or_default_world[OF cd] have same: "files w1 = files w" "requests (trace w1) = requests (trace w)"
    by auto
  show ?thesis
  proof (cases r)
    case (Inl e)
    with cd same show ?thesis by (simp add: upload_file_to_drive_def)
  next
    case (Inr c)
    with cd same assms show ?thesis
      by (auto simp: upload_file_to_drive_def build_def MediaFileUpload_def path_exists_def
            emit_def requests_append split: option.splits)
  qed
qed

theorem upload_missing_file_witness:
  "''missing.txt'' \<notin> files key_disk \<and>
   creds_or_default calm_env some_creds key_disk = (Inr some_creds, key_disk) \<and>
   build_error calm_env ''drive'' ''v3'' some_creds = None \<and>
   (\<exists>w'. upload_file_to_drive calm_env ''missing.txt'' None some_creds None key_disk =
            (Inl (FileNotFoundError ''No such file or directory'' (Some ''missing.txt'')), w') \<and>
          requests (trace w') = requests (trace key_disk)) \<and>
   creds_or_default no_client_env some_creds key_disk = (Inr some_creds, key_disk) \<and>
   build_error no_client_env ''drive'' ''v3'' some_creds = Some (OtherException ''unknown api'') \<and>
   (\<exists>w'. upload_file_to_drive no_client_env ''missing.txt'' None some_creds None key_disk =
            (Inl (OtherException ''unknown api''), w') \<and>
          requests (trace w') = requests (trace key_disk)) \<and>
   creds_or_default bad_key_env PyNone key_disk =
     (Inl (OtherException ''malformed key file''), emit (LoadKeyFile ''service_account.json'' SCOPES) key_disk) \<and>
   (\<exists>w'. upload_file_to_drive bad_key_env ''missing.txt'' None PyNone None key_disk =
            (Inl (OtherException ''malformed key file''), w') \<and>
          requests (trace w') = requests (trace key_disk))"
proof -
  have missing: "''missing.txt'' \<notin> files key_disk"
    by (simp add: key_disk_def)
  have creds: "creds_or_default calm_env some_creds key_disk = (Inr some_creds, key_disk)"
    by (simp add: creds_or_default_def some_creds_def)
  have built: "build_error calm_env ''drive'' ''v3'' some_creds = None"
    by (simp add: calm_env_def)
  have creds2: "creds_or_default no_client_env some_creds key_disk = (Inr some_creds, key_disk)"
    by (simp add: creds_or_default_def some_creds_def)
  have built2: "build_error no_client_env ''drive'' ''v3'' some_creds = Some (OtherException ''unknown api'')"
    by (simp add: no_client_env_def calm_env_def)
  have creds3: "creds_or_default bad_key_env PyNone key_disk =
     (Inl (OtherException ''malformed key file''), emit (LoadKeyFile ''service_account.json'' SCOPES) key_disk)"
    by (simp add: creds_or_default_def get_credentials_def path_exists_def SERVICE_ACCOUNT_FILE_def
          bad_key_env_def calm_env_def key_disk_def from_service_account_file_def)
  from upload_missing_file[OF missing, of calm_env None some_creds None] creds built
  have a: "\<exists>w'. upload_file_to_drive calm_env ''missing.txt'' None some_creds None key_disk =
            (Inl (FileNotFoundError ''No such file or directory'' (Some ''missing.txt'')), w') \<and>
          requests (trace w') = requests (trace key_disk)"
    by blast
  from upload_missing_file[OF missing, of no_client_env None some_creds None] creds2 built2
  have b: "\<exists>w'. upload_file_to_drive no_client_env ''missing.txt'' None some_creds None key_disk =
            (Inl (OtherException ''unknown api''), w') \<and>
          requests (trace w') = requests (trace key_disk)"
    by blast
  from upload_missing_file[OF missing, of bad_key_env None PyNone None] creds3
  have c: "\<exists>w'. upload_file_to_drive bad_key_env ''missing.txt'' None PyNone None key_disk =
            (Inl (OtherException ''malformed key file''), w') \<and>
          requests (trace w') = requests (trace key_disk)"
    by blast
  from missing creds built a creds2 built2 b creds3 c show ?thesis
    by (intro conjI)
qed

text \<open>
  C3 as the specification states it fails: with no credential passed in and a key file
  that is on disk and does not parse, the uploader fails on the key file; the error is
  not the "file not found" error of the local path.
\<close>

theorem upload_fails_on_credentials_first:
  "''missing.txt'' \<notin> files key_disk \<and>
   fst (upload_file_to_drive bad_key_env ''missing.txt'' None PyNone None key_disk) =
     Inl (OtherException ''malformed key file'')"
  by (simp add: upload_file_to_drive_def creds_or_default_def get_credentials_def
        path_exists_def SERVICE_ACCOUNT_FILE_def bad_key_env_def calm_env_def key_disk_def
        from_service_account_file_def)

section \<open>Credential Loader: a missing key file\<close>

text \<open>
  C4. For every path that does not exist, the Credential Loader fails with the "file
  not found" error, whatever the environment; the world it leaves is the world it
  found, so no request was made and the key file was not parsed.
\<close>

theorem get_credentials_missing_file:
  assumes "sa_file \<notin> files w"
  shows "get_credentials E sa_file scopes w =
           (Inl (FileNotFoundError (''Service account file not found: '' @ sa_file) None), w)
         \<and> trace (snd (get_credentials E sa_file scopes w)) = trace w"
  using assms by (simp add: get_credentials_def path_exists_def)

theorem get_credentials_missing_file_witness:
  "''service_account.json'' \<notin> files empty_disk \<and>
   get_credentials calm_env ''service_account.json'' SCOPES empty_disk =
     (Inl (FileNotFoundError ''Service account file not found: service_account.json'' None), empty_disk)"
  using get_credentials_missing_file[of "''service_account.json''" empty_disk calm_env SCOPES]
  by (simp add: empty_disk_def)

section \<open>Sheet Reader: the grid of the response\<close>



section \<open>Sheet Writer and Sheet Reader: the round trip\<close>

text \<open>
  C6, as amended. The writer sends the grid as it is, in one update of the range, and the
  reader asks for the same range and returns the grid of the response as it is. So a
  successful write in the mode \<^verbatim>\<open>RAW\<close> followed at once by a successful read of the same
  range returns the grid that was written whenever the service reads this grid back
  after this update; which grids a service reads back is up to the service.
\<close>

theorem raw_write_then_read:
  assumes service: "reads_back E (requests (trace w)) spreadsheet_id range_name vals"
      and written: "write_sheet_values E spreadsheet_id range_name vals creds ''RAW'' w = (Inr summary, w1)"
      and read: "read_sheet_values E spreadsheet_id range_name creds' w1 = (Inr grid, w2)"
  shows "grid = vals"
proof -
  let ?upd = "ValuesUpdate spreadsheet_id range_name ''RAW'' [(''values'', vals)]"
  from write_sheet_values_result[OF written] obtain s where
    s: "requests (trace w1) = requests (trace w) @ [(s, ?upd)]"
    by blast
  from read_sheet_values_result[OF read] obtain s' resp where
    r: "respond E (requests (trace w1)) s' (ValuesGet spreadsheet_id range_name) = Inr resp"
       "grid = dict_get resp ''values'' (PyList [])"
    by blast
  from service r(1) have "dict_get resp ''values'' (PyList []) = vals"
    unfolding reads_back_def s by blast
  with r(2) show ?thesis by simp
qed

theorem raw_write_then_read_witness:
  "reads_back trimming_env (requests (trace empty_disk)) ''D1'' ''Sheet1!A1:B2'' name_age_grid \<and>
   fst (write_sheet_values trimming_env ''D1'' ''Sheet1!A1:B2'' name_age_grid some_creds ''RAW'' empty_disk) =
     Inr [(''spreadsheetId'', PyStr ''D1''), (''updatedRange'', PyStr ''Sheet1!A1:B2'')] \<and>
   fst (read_sheet_values trimming_env ''D1'' ''Sheet1!A1:B2'' some_creds
          (snd (write_sheet_values trimming_env ''D1'' ''Sheet1!A1:B2'' name_age_grid some_creds ''RAW'' empty_disk))) =
     Inr name_age_grid"
proof -
  let ?w = "write_sheet_values trimming_env ''D1'' ''Sheet1!A1:B2'' name_age_grid some_creds ''RAW'' empty_disk"
  let ?r = "read_sheet_values trimming_env ''D1'' ''Sheet1!A1:B2'' some_creds (snd ?w)"
  have service: "reads_back trimming_env (requests (trace empty_disk)) ''D1'' ''Sheet1!A1:B2'' name_age_grid"
    by (simp add: reads_back_def trimming_env_def calm_env_def empty_disk_def answer_get_def
          dict_get_def name_age_grid_def drop_trailing_blanks_def)
  have w: "fst ?w = Inr [(''spreadsheetId'', PyStr ''D1''), (''updatedRange'', PyStr ''Sheet1!A1:B2'')]"
    by (simp add: write_sheet_values_def creds_or_default_def some_creds_def build_def
          execute_def trimming_env_def calm_env_def)
  then have written: "?w = (Inr [(''spreadsheetId'', PyStr ''D1''), (''updatedRange'', PyStr ''Sheet1!A1:B2'')], snd ?w)"
    by (metis prod.collapse)
  have "\<exists>grid. fst ?r = Inr grid"
    by (simp add: read_sheet_values_def creds_or_default_def some_creds_def build_def
          execute_def trimming_env_def calm_env_def answer_get_def split: option.splits)
  then obtain grid where g: "fst ?r = Inr grid" by blast
  then have read: "?r = (Inr grid, snd ?r)" by (metis prod.collapse)
  from raw_write_then_read[OF service written read] have "grid = name_age_grid" .
  with g have r: "fst ?r = Inr name_age_grid" by simp
  from service w r show ?thesis by (intro conjI)
qed

text \<open>
  C6 as the specification states it fails: a service that reads a range back without its
  trailing empty cells answers the read after the write of \<^verbatim>\<open>[["Name", ""]]\<close> with
  \<^verbatim>\<open>[["Name"]]\<close>.
\<close>

theorem raw_write_then_read_differs:
  "fst (write_sheet_values trimming_env ''D1'' ''Sheet1!A1:B1''
          (PyList [PyList [PyStr ''Name'', PyStr '''']]) some_creds ''RAW'' empty_disk) =
     Inr [(''spreadsheetId'', PyStr ''D1''), (''updatedRange'', PyStr ''Sheet1!A1:B1'')] \<and>
   fst (read_sheet_values trimming_env ''D1'' ''Sheet1!A1:B1'' some_creds
          (snd (write_sheet_values trimming_env ''D1'' ''Sheet1!A1:B1''
                  (PyList [PyList [PyStr ''Name'', PyStr '''']]) some_creds ''RAW'' empty_disk))) =
     Inr (PyList [PyList [PyStr ''Name'']]) \<and>
   PyList [PyList [PyStr ''Name'']] \<noteq> PyList [PyList [PyStr ''Name'', PyStr '''']]"
  by (simp add: write_sheet_values_def read_sheet_values_def creds_or_default_def some_creds_def
        build_def execute_def trimming_env_def calm_env_def empty_disk_def emit_def
        answer_get_def dict_get_def drop_trailing_blanks_def)

section \<open>Metadata Fetcher: the five fields\<close>




section \<open>File Downloader: opening the destination and reporting progress\<close>

text \<open>
  C8. A download that has its credentials, its client and its destination file has opened
  the destination in the truncating mode \<^verbatim>\<open>wb\<close> before it requests the first chunk. When
  some chunk ends the loop (it is the last one, or requesting it raises), the download
  returns, and between the opening and the end it has requested each chunk up to that
  one and, after each chunk that arrived, printed one progress line for the completion
  fraction of the status of that chunk. When no chunk ever ends the loop, the download
  does not return. The completion fraction of every status is in [0, 1].
\<close>

theorem download_opens_then_reports:
  assumes creds: "creds_or_default E creds w = (Inr c, w1)"
      and built: "build_error E ''drive'' ''v3'' c = None"
      and opened: "open_error E dest ''wb'' = None"
  shows "truncating ''wb'' \<and>
         (\<forall>n. stops_at E (''drive'', ''v3'', c) file_id n \<and>
               (\<forall>j<n. \<not> stops_at E (''drive'', ''v3'', c) file_id j) \<longrightarrow>
            (\<exists>w'. download_file_from_drive E file_id dest creds w =
                     Some (map_sum id (\<lambda>u. dest) (loop_outcome E (''drive'', ''v3'', c) file_id n), w') \<and>
                   trace w' =
                     trace w1 @ [Build ''drive'' ''v3'' c, OpenFile (fresh_handle w1) dest ''wb'']
                     @ concat (map (\<lambda>j. Execute (''drive'', ''v3'', c) (GetMedia file_id j) #
                                      (case next_chunk E (''drive'', ''v3'', c) file_id j of
                                         ChunkError e \<Rightarrow> []
                                       | Chunk status d \<Rightarrow>
                                           [Print [Txt ''Download '', PercentOf (progress status), Txt ''%.'']]))
                               [0..<Suc n])
                     @ (case loop_outcome E (''drive'', ''v3'', c) file_id n of
                          Inl e \<Rightarrow> [] | Inr u \<Rightarrow> [CloseFile (fresh_handle w1)]))) \<and>
         ((\<forall>j. \<not> stops_at E (''drive'', ''v3'', c) file_id j) \<longrightarrow>
            download_file_from_drive E file_id dest creds w = None) \<and>
         (\<forall>j status d. next_chunk E (''drive'', ''v3'', c) file_id j = Chunk status d \<longrightarrow>
            0 \<le> progress status \<and> progress status \<le> 1)"
proof (intro conjI allI impI)
  show "truncating ''wb''" by (simp add: truncating_def)
next
  fix n
  assume "stops_at E (''drive'', ''v3'', c) file_id n \<and>
          (\<forall>j<n. \<not> stops_at E (''drive'', ''v3'', c) file_id j)"
  then have stop: "stops_at E (''drive'', ''v3'', c) file_id n"
    and before: "\<forall>j<n. \<not> stops_at E (''drive'', ''v3'', c) file_id j" by auto
  from download_returns[OF creds built opened stop before]
  show "\<exists>w'. download_file_from_drive E file_id dest creds w =
                 Some (map_sum id (\<lambda>u. dest) (loop_outcome E (''drive'', ''v3'', c) file_id n), w') \<and>
               trace w' =
                 trace w1 @ [Build ''drive'' ''v3'' c, OpenFile (fresh_handle w1) dest ''wb'']
                 @ concat (map (\<lambda>j. Execute (''drive'', ''v3'', c) (GetMedia file_id j) #
                                  (case next_chunk E (''drive'', ''v3'', c) file_id j of
                                     ChunkError e \<Rightarrow> []
                                   | Chunk status d \<Rightarrow>
                                       [Print [Txt ''Download '', PercentOf (progress status), Txt ''%.'']]))
                           [0..<Suc n])
                 @ (case loop_outcome E (''drive'', ''v3'', c) file_id n of
                      Inl e \<Rightarrow> [] | Inr u \<Rightarrow> [CloseFile (fresh_handle w1)])"
    unfolding loop_events_explicit .
next
  assume never: "\<forall>j. \<not> stops_at E (''drive'', ''v3'', c) file_id j"
  then have "download_loop E (''drive'', ''v3'', c) file_id 0
               (w1\<lparr>files := insert dest (files w1),
                   trace := trace w1 @ [Build ''drive'' ''v3'' c, OpenFile (fresh_handle w1) dest ''wb'']\<rparr>) = None"
    by (intro download_never_stops) simp
  then show "download_file_from_drive E file_id dest creds w = None"
    unfolding download_unfolded[OF creds built opened] by simp
next
  fix j status d
  show "0 \<le> progress status" "progress status \<le> 1"
    using progress_bounds[of status] by auto
qed


theorem download_opens_then_reports_witness:
  "creds_or_default two_chunk_env some_creds empty_disk = (Inr some_creds, empty_disk) \<and>
   build_error two_chunk_env ''drive'' ''v3'' some_creds = None \<and>
   open_error two_chunk_env ''out.bin'' ''wb'' = None \<and>
   stops_at two_chunk_env (''drive'', ''v3'', some_creds) ''F'' 1 \<and>
   \<not> stops_at two_chunk_env (''drive'', ''v3'', some_creds) ''F'' 0 \<and>
   (\<exists>w'. download_file_from_drive two_chunk_env ''F'' ''out.bin'' some_creds empty_disk =
            Some (Inr ''out.bin'', w') \<and>
          trace w' = [Build ''drive'' ''v3'' some_creds,
                      OpenFile 0 ''out.bin'' ''wb'',
                      Execute (''drive'', ''v3'', some_creds) (GetMedia ''F'' 0),
                      Print [Txt ''Download '', PercentOf (1 / 2), Txt ''%.''],
                      Execute (''drive'', ''v3'', some_creds) (GetMedia ''F'' 1),
                      Print [Txt ''Download '', PercentOf 1, Txt ''%.''],
                      CloseFile 0]) \<and>
   next_chunk two_chunk_env (''drive'', ''v3'', some_creds) ''F'' 0 = Chunk (received 1 2) False \<and>
   0 \<le> progress (received 1 2) \<and> progress (received 1 2) \<le> 1 \<and>
   creds_or_default endless_env some_creds empty_disk = (Inr some_creds, empty_disk) \<and>
   download_file_from_drive endless_env ''F'' ''out.bin'' some_creds empty_disk = None"
proof -
  let ?svc = "(''drive'', ''v3'', some_creds)"
  have creds: "creds_or_default two_chunk_env some_creds empty_disk = (Inr some_creds, empty_disk)"
    by (simp add: creds_or_default_def some_creds_def)
  have built: "build_error two_chunk_env ''drive'' ''v3'' some_creds = None"
    by (simp add: two_chunk_env_def calm_env_def)
  have opened: "open_error two_chunk_env ''out.bin'' ''wb'' = None"
    by (simp add: two_chunk_env_def calm_env_def)
  have nc: "\<And>j. next_chunk two_chunk_env ?svc ''F'' j =
              (if j = 0 then Chunk (received 1 2) False else Chunk (received 2 2) True)"
    by (simp add: two_chunk_env_def calm_env_def)
  have stop: "stops_at two_chunk_env ?svc ''F'' 1" and go: "\<not> stops_at two_chunk_env ?svc ''F'' 0"
    by (simp_all add: stops_at_def nc)
  then have first: "stops_at two_chunk_env ?svc ''F'' 1 \<and> (\<forall>j<1. \<not> stops_at two_chunk_env ?svc ''F'' j)"
    by simp
  note t = download_opens_then_reports[OF creds built opened, of "''F''"]
  from t[THEN conjunct2, THEN conjunct1, rule_format, OF first]
  have "\<exists>w'. download_file_from_drive two_chunk_env ''F'' ''out.bin'' some_creds empty_disk =
            Some (map_sum id (\<lambda>u. ''out.bin'') (loop_outcome two_chunk_env ?svc ''F'' 1), w') \<and>
          trace w' =
            trace empty_disk @ [Build ''drive'' ''v3'' some_creds, OpenFile (fresh_handle empty_disk) ''out.bin'' ''wb'']
            @ concat (map (\<lambda>j. Execute ?svc (GetMedia ''F'' j) #
                             (case next_chunk two_chunk_env ?svc ''F'' j of
                                ChunkError e \<Rightarrow> []
                              | Chunk status d \<Rightarrow>
                                  [Print [Txt ''Download '', PercentOf (progress status), Txt ''%.'']]))
                      [0..<Suc 1])
            @ (case loop_outcome two_chunk_env ?svc ''F'' 1 of
                 Inl e \<Rightarrow> [] | Inr u \<Rightarrow> [CloseFile (fresh_handle empty_disk)])" .
  then have run: "\<exists>w'. download_file_from_drive two_chunk_env ''F'' ''out.bin'' some_creds empty_disk =
            Some (Inr ''out.bin'', w') \<and>
          trace w' = [Build ''drive'' ''v3'' some_creds,
                      OpenFile 0 ''out.bin'' ''wb'',
                      Execute ?svc (GetMedia ''F'' 0),
                      Print [Txt ''Download '', PercentOf (1 / 2), Txt ''%.''],
                      Execute ?svc (GetMedia ''F'' 1),
                      Print [Txt ''Download '', PercentOf 1, Txt ''%.''],
                      CloseFile 0]"
    by (simp add: loop_outcome_def nc progress_received fresh_handle_def empty_disk_def)
  have first_chunk: "next_chunk two_chunk_env ?svc ''F'' 0 = Chunk (received 1 2) False"
    by (simp add: nc)
  from t[THEN conjunct2, THEN conjunct2, THEN conjunct2, rule_format, OF first_chunk]
  have bounds: "0 \<le> progress (received 1 2) \<and> progress (received 1 2) \<le> 1" .
  have creds': "creds_or_default endless_env some_creds empty_disk = (Inr some_creds, empty_disk)"
    by (simp add: creds_or_default_def some_creds_def)
  have built': "build_error endless_env ''drive'' ''v3'' some_creds = None"
    by (simp add: endless_env_def calm_env_def)
  have opened': "open_error endless_env ''out.bin'' ''wb'' = None"
    by (simp add: endless_env_def calm_env_def)
  have never: "\<forall>j. \<not> stops_at endless_env ?svc ''F'' j"
    by (simp add: stops_at_def endless_env_def calm_env_def)
  from download_opens_then_reports[OF creds' built' opened', of "''F''",
         THEN conjunct2, THEN conjunct2, THEN conjunct1, THEN mp, OF never]
  have endless: "download_file_from_drive endless_env ''F'' ''out.bin'' some_creds empty_disk = None" .
  from bounds have lo: "0 \<le> progress (received 1 2)" and hi: "progress (received 1 2) \<le> 1"
    by simp_all
  from creds built opened stop go run first_chunk lo hi creds' endless show ?thesis
    by (intro conjI)
qed

section \<open>File Uploader: the metadata record and the identifier\<close>



section \<open>The optional credential of the operations\<close>

text \<open>
  C10. In each of the five operations a credential argument that is false (\<^verbatim>\<open>None\<close>, but
  also an empty string, zero, an empty list) is treated as absent: the operation loads the
  default credentials with the Credential Loader, fails as the loader fails, and goes on
  with the credentials it loaded. A credential argument that is true is used as it is: the
  first thing the operation does is to build its client with it.
\<close>

theorem falsy_credentials_are_replaced:
  "(\<not> truthy creds \<longrightarrow>
      read_sheet_values E spreadsheet_id range_name creds w =
        (case get_credentials E (SERVICE_ACCOUNT_FILE E) SCOPES w of
           (Inl e, w1) \<Rightarrow> (Inl e, w1)
         | (Inr c, w1) \<Rightarrow> read_sheet_values E spreadsheet_id range_name c w1) \<and>
      write_sheet_values E spreadsheet_id range_name vals creds value_input_option w =
        (case get_credentials E (SERVICE_ACCOUNT_FILE E) SCOPES w of
           (Inl e, w1) \<Rightarrow> (Inl e, w1)
         | (Inr c, w1) \<Rightarrow> write_sheet_values E spreadsheet_id range_name vals c value_input_option w1) \<and>
      upload_file_to_drive E file_path mime_type creds parent_folder_id w =
        (case get_credentials E (SERVICE_ACCOUNT_FILE E) SCOPES w of
           (Inl e, w1) \<Rightarrow> (Inl e, w1)
         | (Inr c, w1) \<Rightarrow> upload_file_to_drive E file_path mime_type c parent_folder_id w1) \<and>
      download_file_from_drive E file_id destination_path creds w =
        (case get_credentials E (SERVICE_ACCOUNT_FILE E) SCOPES w of
           (Inl e, w1) \<Rightarrow> Some (Inl e, w1)
         | (Inr c, w1) \<Rightarrow> download_file_from_drive E file_id destination_path c w1) \<and>
      get_file_metadata E file_id creds w =
        (case get_credentials E (SERVICE_ACCOUNT_FILE E) SCOPES w of
           (Inl e, w1) \<Rightarrow> (Inl e, w1)
         | (Inr c, w1) \<Rightarrow> get_file_metadata E file_id c w1)) \<and>
   (truthy creds \<longrightarrow>
      (\<exists>a. trace (snd (read_sheet_values E spreadsheet_id range_name creds w)) =
             trace w @ Build ''sheets'' ''v4'' creds # a) \<and>
      (\<exists>a. trace (snd (write_sheet_values E spreadsheet_id range_name vals creds value_input_option w)) =
             trace w @ Build ''sheets'' ''v4'' creds # a) \<and>
      (\<exists>a. trace (snd (upload_file_to_drive E file_path mime_type creds parent_folder_id w)) =
             trace w @ Build ''drive'' ''v3'' creds # a) \<and>
      (\<exists>a. trace (snd (get_file_metadata E file_id creds w)) =
             trace w @ Build ''drive'' ''v3'' creds # a)) \<and>
   (truthy creds \<and> download_file_from_drive E file_id destination_path creds w = Some (r, w') \<longrightarrow>
      (\<exists>a. trace w' = trace w @ Build ''drive'' ''v3'' creds # a))"
proof (intro conjI impI)
  assume f: "\<not> truthy creds"
  show "read_sheet_values E spreadsheet_id range_name creds w =
        (case get_credentials E (SERVICE_ACCOUNT_FILE E) SCOPES w of
           (Inl e, w1) \<Rightarrow> (Inl e, w1)
         | (Inr c, w1) \<Rightarrow> read_sheet_values E spreadsheet_id range_name c w1)"
    by (rule read_sheet_values_falsy[OF f])
  show "write_sheet_values E spreadsheet_id range_name vals creds value_input_option w =
        (case get_credentials E (SERVICE_ACCOUNT_FILE E) SCOPES w of
           (Inl e, w1) \<Rightarrow> (Inl e, w1)
         | (Inr c, w1) \<Rightarrow> write_sheet_values E spreadsheet_id range_name vals c value_input_option w1)"
    by (rule write_sheet_values_falsy[OF f])
  show "upload_file_to_drive E file_path mime_type creds parent_folder_id w =
        (case get_credentials E (SERVICE_ACCOUNT_FILE E) SCOPES w of
           (Inl e, w1) \<Rightarrow> (Inl e, w1)
         | (Inr c, w1) \<Rightarrow> upload_file_to_drive E file_path mime_type c parent_folder_id w1)"
    by (rule upload_file_to_drive_falsy[OF f])
  show "download_file_from_drive E file_id destination_path creds w =
        (case get_credentials E (SERVICE_ACCOUNT_FILE E) SCOPES w of
           (Inl e, w1) \<Rightarrow> Some (Inl e, w1)
         | (Inr c, w1) \<Rightarrow> download_file_from_drive E file_id destination_path c w1)"
    by (rule download_file_from_drive_falsy[OF f])
  show "get_file_metadata E file_id creds w =
        (case get_credentials E (SERVICE_ACCOUNT_FILE E) SCOPES w of
           (Inl e, w1) \<Rightarrow> (Inl e, w1)
         | (Inr c, w1) \<Rightarrow> get_file_metadata E file_id c w1)"
    by (rule get_file_metadata_falsy[OF f])
next
  assume t: "truthy creds"
  show "\<exists>a. trace (snd (read_sheet_values E spreadsheet_id range_name creds w)) =
             trace w @ Build ''sheets'' ''v4'' creds # a"
    by (rule read_sheet_values_trace(1)[OF t])
  show "\<exists>a. trace (snd (write_sheet_values E spreadsheet_id range_name vals creds value_input_option w)) =
             trace w @ Build ''sheets'' ''v4'' creds # a"
    by (rule write_sheet_values_trace(1)[OF t])
  show "\<exists>a. trace (snd (upload_file_to_drive E file_path mime_type creds parent_folder_id w)) =
             trace w @ Build ''drive'' ''v3'' creds # a"
    by (rule upload_file_to_drive_trace(1)[OF t])
  show "\<exists>a. trace (snd (get_file_metadata E file_id creds w)) =
             trace w @ Build ''drive'' ''v3'' creds # a"
    by (rule get_file_metadata_trace[OF t])
next
  assume "truthy creds \<and> download_file_from_drive E file_id destination_path creds w = Some (r, w')"
  then show "\<exists>a. trace w' = trace w @ Build ''drive'' ''v3'' creds # a"
    using download_file_from_drive_trace by blast
qed


theorem falsy_credentials_are_replaced_witness:
  "\<not> truthy (PyStr []) \<and>
   read_sheet_values calm_env ''D1'' ''Sheet1'' (PyStr []) key_disk =
     read_sheet_values calm_env ''D1'' ''Sheet1'' (Credentials ''service_account.json'' SCOPES)
       (emit (LoadKeyFile ''service_account.json'' SCOPES) key_disk) \<and>
   get_file_metadata calm_env ''F'' (PyStr []) empty_disk =
     (Inl (FileNotFoundError ''Service account file not found: service_account.json'' None), empty_disk) \<and>
   truthy some_creds \<and>
   (\<exists>a. trace (snd (upload_file_to_drive calm_env ''docs/report.csv'' None some_creds None report_disk)) =
          trace report_disk @ Build ''drive'' ''v3'' some_creds # a) \<and>
   download_file_from_drive calm_env ''F'' ''out.bin'' some_creds empty_disk =
     Some (Inr ''out.bin'',
           \<lparr>files = {''out.bin''},
            trace = [Build ''drive'' ''v3'' some_creds,
                     OpenFile 0 ''out.bin'' ''wb'',
                     Execute (''drive'', ''v3'', some_creds) (GetMedia ''F'' 0),
                     Print [Txt ''Download '', PercentOf 1, Txt ''%.''],
                     CloseFile 0]\<rparr>) \<and>
   (\<exists>a. [Build ''drive'' ''v3'' some_creds,
         OpenFile 0 ''out.bin'' ''wb'',
         Execute (''drive'', ''v3'', some_creds) (GetMedia ''F'' 0),
         Print [Txt ''Download '', PercentOf 1, Txt ''%.''],
         CloseFile 0] = trace empty_disk @ Build ''drive'' ''v3'' some_creds # a)"
proof -
  let ?W = "\<lparr>files = {''out.bin''},
            trace = [Build ''drive'' ''v3'' some_creds,
                     OpenFile 0 ''out.bin'' ''wb'',
                     Execute (''drive'', ''v3'', some_creds) (GetMedia ''F'' 0),
                     Print [Txt ''Download '', PercentOf 1, Txt ''%.''],
                     CloseFile 0]\<rparr>"
  have falsy: "\<not> truthy (PyStr [])" by simp
  have truthy: "truthy some_creds" by (simp add: some_creds_def)
  have loaded: "get_credentials calm_env (SERVICE_ACCOUNT_FILE calm_env) SCOPES key_disk =
     (Inr (Credentials ''service_account.json'' SCOPES),
      emit (LoadKeyFile ''service_account.json'' SCOPES) key_disk)"
    by (simp add: get_credentials_def path_exists_def SERVICE_ACCOUNT_FILE_def calm_env_def
          key_disk_def from_service_account_file_def)
  have missing: "get_credentials calm_env (SERVICE_ACCOUNT_FILE calm_env) SCOPES empty_disk =
     (Inl (FileNotFoundError ''Service account file not found: service_account.json'' None), empty_disk)"
    by (simp add: get_credentials_def path_exists_def SERVICE_ACCOUNT_FILE_def calm_env_def
          empty_disk_def)
  have run: "download_file_from_drive calm_env ''F'' ''out.bin'' some_creds empty_disk =
               Some (Inr ''out.bin'', ?W)"
    by (simp add: download_file_from_drive_def creds_or_default_def some_creds_def build_def
          calm_env_def open_write_def emit_def fresh_handle_def empty_disk_def
          download_loop.simps report_def truthy_status_def progress_received py_print_def close_def)
  have a: "read_sheet_values calm_env ''D1'' ''Sheet1'' (PyStr []) key_disk =
     read_sheet_values calm_env ''D1'' ''Sheet1'' (Credentials ''service_account.json'' SCOPES)
       (emit (LoadKeyFile ''service_account.json'' SCOPES) key_disk)"
    using falsy_credentials_are_replaced[where creds = "PyStr []" and E = calm_env and w = key_disk
        and spreadsheet_id = "''D1''" and range_name = "''Sheet1''"] falsy
    by (simp add: loaded)
  have b: "get_file_metadata calm_env ''F'' (PyStr []) empty_disk =
     (Inl (FileNotFoundError ''Service account file not found: service_account.json'' None), empty_disk)"
    using falsy_credentials_are_replaced[where creds = "PyStr []" and E = calm_env and w = empty_disk
        and file_id = "''F''"] falsy
    by (simp add: missing)
  have c: "\<exists>a. trace (snd (upload_file_to_drive calm_env ''docs/report.csv'' None some_creds None report_disk)) =
          trace report_disk @ Build ''drive'' ''v3'' some_creds # a"
    using falsy_credentials_are_replaced[where creds = some_creds and E = calm_env and w = report_disk
        and file_path = "''docs/report.csv''" and mime_type = None and parent_folder_id = None] truthy
    by blast
  have d: "\<exists>a. trace ?W = trace empty_disk @ Build ''drive'' ''v3'' some_creds # a"
    using falsy_credentials_are_replaced[where creds = some_creds and E = calm_env and w = empty_disk
        and file_id = "''F''" and destination_path = "''out.bin''" and r = "Inr ''out.bin''" and w' = ?W]
      truthy run
    by blast
  from falsy a b truthy c run d show ?thesis by simp
qed

end
